theory Spec2Isabelle
  imports Main "HOL-Library.Multiset" "HOL-Library.Monad_Syntax"
begin

section \<open>Schema (shared/schema.ts)\<close>

text \<open>
  The four Postgres enums of the schema. A \<^verbatim>\<open>timestamp\<close> column is a number of
  milliseconds; \<^verbatim>\<open>new Date()\<close> and \<^verbatim>\<open>defaultNow()\<close> read the clock, which every
  operation below takes as its argument \<open>now\<close>, one reading for each request.
\<close>

datatype user_role = Refugee | Host | Admin

datatype profile_status = Pending | Approved | Rejected

datatype contract_status = Proposed | Signed_refugee | Signed_host | Completed | Cancelled

datatype message_status = Sent | Delivered | Read

type_synonym timestamp = nat

text \<open>
  One record per table, one field per column, the field named after the column with the
  table's initial in front. Of the users table the e-mail, the names and the picture,
  which no server operation reads or writes, are left out. A column with
  \<^verbatim>\<open>defaultNow()\<close> that the insert schema omits is always filled by the database, so it
  is a plain timestamp; every other nullable column is an option.
\<close>

record user =
  u_id :: string
  u_role :: user_role
  u_profileStatus :: profile_status
  u_updatedAt :: "timestamp option"

record refugee_profile =
  rp_id :: int
  rp_userId :: string
  rp_familySize :: int
  rp_estimatedStay :: string
  rp_medicalNeeds :: "string option"
  rp_specialRequirements :: "string option"
  rp_languages :: "string list option"
  rp_countryOfOrigin :: "string option"
  rp_phoneNumber :: "string option"
  rp_emergencyContact :: "string option"
  rp_additionalInfo :: "string option"
  rp_createdAt :: timestamp
  rp_updatedAt :: timestamp

record host_profile =
  hp_id :: int
  hp_userId :: string
  hp_accommodationType :: string
  hp_maxOccupants :: int
  hp_availabilityDuration :: string
  hp_description :: "string option"
  hp_houseRules :: "string option"
  hp_amenities :: "string list option"
  hp_location :: string
  hp_address :: "string option"
  hp_phoneNumber :: "string option"
  hp_petFriendly :: "bool option"
  hp_smokingAllowed :: "bool option"
  hp_accessibilityFeatures :: "string option"
  hp_criminalRecordChecked :: "bool option"
  hp_backgroundCheckDate :: "timestamp option"
  hp_additionalInfo :: "string option"
  hp_createdAt :: timestamp
  hp_updatedAt :: timestamp

record message =
  m_id :: int
  m_senderId :: string
  m_receiverId :: string
  m_content :: string
  m_status :: message_status
  m_createdAt :: timestamp
  m_readAt :: "timestamp option"

record contract =
  c_id :: int
  c_refugeeId :: string
  c_hostId :: string
  c_status :: contract_status
  c_terms :: string
  c_duration :: string
  c_startDate :: "timestamp option"
  c_endDate :: "timestamp option"
  c_refugeeSignedAt :: "timestamp option"
  c_hostSignedAt :: "timestamp option"
  c_adminApprovedAt :: "timestamp option"
  c_adminApprovedBy :: "string option"
  c_createdAt :: timestamp
  c_updatedAt :: timestamp

record notification =
  n_id :: int
  n_userId :: string
  n_title :: string
  n_content :: string
  n_type :: string
  n_read :: bool
  n_createdAt :: timestamp

text \<open>
  The database: each table is the list of its rows in insertion order, and each
  \<^verbatim>\<open>serial\<close> column has its sequence, the id the next inserted row gets.
\<close>

record db =
  users :: "user list"
  refugeeProfiles :: "refugee_profile list"
  hostProfiles :: "host_profile list"
  messages :: "message list"
  contracts :: "contract list"
  notifications :: "notification list"
  refugeeProfiles_seq :: int
  hostProfiles_seq :: int
  messages_seq :: int
  contracts_seq :: int
  notifications_seq :: int

text \<open>
  The values the insert schemas produce (\<^verbatim>\<open>z.infer\<close> of each \<^verbatim>\<open>createInsertSchema\<close>):
  the columns the schema keeps, a column with a default or without \<^verbatim>\<open>notNull()\<close> being
  optional. The three nullable boolean columns of a host profile have a default, so
  for them leaving the key out (\<open>None\<close>: the database stores the default) differs from
  giving \<^verbatim>\<open>null\<close> (\<open>Some None\<close>).
\<close>

record insert_refugee_profile =
  irp_familySize :: int
  irp_estimatedStay :: string
  irp_medicalNeeds :: "string option"
  irp_specialRequirements :: "string option"
  irp_languages :: "string list option"
  irp_countryOfOrigin :: "string option"
  irp_phoneNumber :: "string option"
  irp_emergencyContact :: "string option"
  irp_additionalInfo :: "string option"

record insert_host_profile =
  ihp_accommodationType :: string
  ihp_maxOccupants :: int
  ihp_availabilityDuration :: string
  ihp_description :: "string option"
  ihp_houseRules :: "string option"
  ihp_amenities :: "string list option"
  ihp_location :: string
  ihp_address :: "string option"
  ihp_phoneNumber :: "string option"
  ihp_petFriendly :: "bool option option"
  ihp_smokingAllowed :: "bool option option"
  ihp_accessibilityFeatures :: "string option"
  ihp_criminalRecordChecked :: "bool option option"
  ihp_backgroundCheckDate :: "timestamp option"
  ihp_additionalInfo :: "string option"

record insert_message =
  im_senderId :: string
  im_receiverId :: string
  im_content :: string
  im_status :: "message_status option"

record insert_contract =
  ic_refugeeId :: string
  ic_hostId :: string
  ic_status :: "contract_status option"
  ic_terms :: string
  ic_duration :: string
  ic_startDate :: "timestamp option"
  ic_endDate :: "timestamp option"

record insert_notification =
  in_userId :: string
  in_title :: string
  in_content :: string
  in_type :: string

text \<open>
  A request body is JSON of any shape. Each key a schema knows is absent (or \<^verbatim>\<open>null\<close>
  where the column is nullable), present with a value the schema rejects, or present
  with a value it accepts; keys the schema does not know are stripped by \<^verbatim>\<open>parse\<close>
  and so are not part of a body. For the three boolean keys of a host profile that have
  a default, \<^verbatim>\<open>null\<close> is an accepted value of its own, \<open>Given None\<close>.
\<close>

datatype 'a field = Absent | Malformed | Given 'a

record refugee_profile_body =
  rb_familySize :: "int field"
  rb_estimatedStay :: "string field"
  rb_medicalNeeds :: "string field"
  rb_specialRequirements :: "string field"
  rb_languages :: "string list field"
  rb_countryOfOrigin :: "string field"
  rb_phoneNumber :: "string field"
  rb_emergencyContact :: "string field"
  rb_additionalInfo :: "string field"

record host_profile_body =
  hb_accommodationType :: "string field"
  hb_maxOccupants :: "int field"
  hb_availabilityDuration :: "string field"
  hb_description :: "string field"
  hb_houseRules :: "string field"
  hb_amenities :: "string list field"
  hb_location :: "string field"
  hb_address :: "string field"
  hb_phoneNumber :: "string field"
  hb_petFriendly :: "bool option field"
  hb_smokingAllowed :: "bool option field"
  hb_accessibilityFeatures :: "string field"
  hb_criminalRecordChecked :: "bool option field"
  hb_backgroundCheckDate :: "timestamp field"
  hb_additionalInfo :: "string field"

record message_body =
  mb_receiverId :: "string field"
  mb_content :: "string field"
  mb_status :: "message_status field"

record contract_body =
  cb_refugeeId :: "string field"
  cb_hostId :: "string field"
  cb_status :: "contract_status field"
  cb_terms :: "string field"
  cb_duration :: "string field"
  cb_startDate :: "timestamp field"
  cb_endDate :: "timestamp field"

text \<open>A required key must be given; an optional key may be absent but not malformed.\<close>

fun required :: "'a field \<Rightarrow> 'a option" where
  "required (Given v) = Some v"
| "required Absent = None"
| "required Malformed = None"

fun optional :: "'a field \<Rightarrow> 'a option option" where
  "optional (Given v) = Some (Some v)"
| "optional Absent = Some None"
| "optional Malformed = None"

text \<open>
  \<^verbatim>\<open>schema.parse(body)\<close>: \<open>None\<close> is the thrown \<^verbatim>\<open>ZodError\<close>. The two profile schemas
  omit \<^verbatim>\<open>id\<close>, \<^verbatim>\<open>userId\<close>, \<^verbatim>\<open>createdAt\<close> and \<^verbatim>\<open>updatedAt\<close> and check every
  other column: the \<^verbatim>\<open>notNull()\<close> columns without default are required, the others
  optional.
\<close>

definition insertRefugeeProfileSchema_parse ::
  "refugee_profile_body \<Rightarrow> insert_refugee_profile option" where
  "insertRefugeeProfileSchema_parse b =
     do {
       fs \<leftarrow> required (rb_familySize b);
       es \<leftarrow> required (rb_estimatedStay b);
       mn \<leftarrow> optional (rb_medicalNeeds b);
       sr \<leftarrow> optional (rb_specialRequirements b);
       ls \<leftarrow> optional (rb_languages b);
       co \<leftarrow> optional (rb_countryOfOrigin b);
       pn \<leftarrow> optional (rb_phoneNumber b);
       ec \<leftarrow> optional (rb_emergencyContact b);
       ai \<leftarrow> optional (rb_additionalInfo b);
       Some \<lparr>irp_familySize = fs, irp_estimatedStay = es, irp_medicalNeeds = mn,
             irp_specialRequirements = sr, irp_languages = ls, irp_countryOfOrigin = co,
             irp_phoneNumber = pn, irp_emergencyContact = ec, irp_additionalInfo = ai\<rparr>
     }"

definition insertHostProfileSchema_parse ::
  "host_profile_body \<Rightarrow> insert_host_profile option" where
  "insertHostProfileSchema_parse b =
     do {
       at \<leftarrow> required (hb_accommodationType b);
       mo \<leftarrow> required (hb_maxOccupants b);
       ad \<leftarrow> required (hb_availabilityDuration b);
       de \<leftarrow> optional (hb_description b);
       hr \<leftarrow> optional (hb_houseRules b);
       am \<leftarrow> optional (hb_amenities b);
       lo \<leftarrow> required (hb_location b);
       adr \<leftarrow> optional (hb_address b);
       pn \<leftarrow> optional (hb_phoneNumber b);
       pf \<leftarrow> optional (hb_petFriendly b);
       sa \<leftarrow> optional (hb_smokingAllowed b);
       af \<leftarrow> optional (hb_accessibilityFeatures b);
       cr \<leftarrow> optional (hb_criminalRecordChecked b);
       bd \<leftarrow> optional (hb_backgroundCheckDate b);
       ai \<leftarrow> optional (hb_additionalInfo b);
       Some \<lparr>ihp_accommodationType = at, ihp_maxOccupants = mo,
             ihp_availabilityDuration = ad, ihp_description = de, ihp_houseRules = hr,
             ihp_amenities = am, ihp_location = lo, ihp_address = adr, ihp_phoneNumber = pn,
             ihp_petFriendly = pf, ihp_smokingAllowed = sa, ihp_accessibilityFeatures = af,
             ihp_criminalRecordChecked = cr, ihp_backgroundCheckDate = bd,
             ihp_additionalInfo = ai\<rparr>
     }"

text \<open>The message route parses \<^verbatim>\<open>{ ...req.body, senderId }\<close>.\<close>

definition insertMessageSchema_parse ::
  "string \<Rightarrow> message_body \<Rightarrow> insert_message option" where
  "insertMessageSchema_parse senderId b =
     (case (required (mb_receiverId b), required (mb_content b), optional (mb_status b)) of
        (Some r, Some c, Some s) \<Rightarrow>
          Some \<lparr>im_senderId = senderId, im_receiverId = r, im_content = c, im_status = s\<rparr>
      | _ \<Rightarrow> None)"

text \<open>
  \<^verbatim>\<open>insertContractSchema\<close> omits the id, the two signature timestamps, the two
  approval columns and the two row timestamps. It keeps \<^verbatim>\<open>status\<close> (optional, the
  column has a default), the two party ids, \<^verbatim>\<open>terms\<close> and \<^verbatim>\<open>duration\<close> (required,
  \<^verbatim>\<open>notNull()\<close>), and the two dates (optional, nullable columns).
\<close>

definition insertContractSchema_parse :: "contract_body \<Rightarrow> insert_contract option" where
  "insertContractSchema_parse b =
     (case (required (cb_refugeeId b), required (cb_hostId b), optional (cb_status b),
            required (cb_terms b), required (cb_duration b),
            optional (cb_startDate b), optional (cb_endDate b)) of
        (Some r, Some h, Some s, Some t, Some d, Some sd, Some ed) \<Rightarrow>
          Some \<lparr>ic_refugeeId = r, ic_hostId = h, ic_status = s, ic_terms = t,
                ic_duration = d, ic_startDate = sd, ic_endDate = ed\<rparr>
      | _ \<Rightarrow> None)"

section \<open>Storage (server/storage.ts, class DatabaseStorage)\<close>

text \<open>
  A statement the database refuses throws. A validated insert can still break a foreign
  key on \<^verbatim>\<open>users.id\<close>, and an id that does not fit the four-byte \<^verbatim>\<open>integer\<close> of a
  \<^verbatim>\<open>serial\<close> column is refused as a parameter. A refused statement leaves the tables
  as they were.
\<close>

datatype db_error = ForeignKeyViolation | NumericValueOutOfRange

definition int4 :: "int \<Rightarrow> bool" where
  "int4 i \<longleftrightarrow> - 2147483648 \<le> i \<and> i \<le> 2147483647"

definition getUser :: "db \<Rightarrow> string \<Rightarrow> user option" where
  "getUser d uid = find (\<lambda>u. u_id u = uid) (users d)"

definition user_exists :: "db \<Rightarrow> string \<Rightarrow> bool" where
  "user_exists d uid = (uid \<in> set (map u_id (users d)))"

text \<open>\<^verbatim>\<open>.default(false)\<close>: the key left out stores \<^verbatim>\<open>false\<close>, the key given stores its value.\<close>

definition default_false :: "bool option option \<Rightarrow> bool option" where
  "default_false v = (case v of None \<Rightarrow> Some False | Some x \<Rightarrow> x)"

definition createRefugeeProfile ::
  "db \<Rightarrow> timestamp \<Rightarrow> insert_refugee_profile \<Rightarrow> string \<Rightarrow> db_error + (refugee_profile \<times> db)" where
  "createRefugeeProfile d now p userId =
     (if \<not> user_exists d userId then Inl ForeignKeyViolation
      else
        let row = \<lparr>rp_id = refugeeProfiles_seq d, rp_userId = userId,
                   rp_familySize = irp_familySize p, rp_estimatedStay = irp_estimatedStay p,
                   rp_medicalNeeds = irp_medicalNeeds p,
                   rp_specialRequirements = irp_specialRequirements p,
                   rp_languages = irp_languages p,
                   rp_countryOfOrigin = irp_countryOfOrigin p,
                   rp_phoneNumber = irp_phoneNumber p,
                   rp_emergencyContact = irp_emergencyContact p,
                   rp_additionalInfo = irp_additionalInfo p,
                   rp_createdAt = now, rp_updatedAt = now\<rparr>
        in Inr (row, d\<lparr>refugeeProfiles := refugeeProfiles d @ [row],
                       refugeeProfiles_seq := refugeeProfiles_seq d + 1\<rparr>))"

definition createHostProfile ::
  "db \<Rightarrow> timestamp \<Rightarrow> insert_host_profile \<Rightarrow> string \<Rightarrow> db_error + (host_profile \<times> db)" where
  "createHostProfile d now p userId =
     (if \<not> user_exists d userId then Inl ForeignKeyViolation
      else
        let row = \<lparr>hp_id = hostProfiles_seq d, hp_userId = userId,
                   hp_accommodationType = ihp_accommodationType p,
                   hp_maxOccupants = ihp_maxOccupants p,
                   hp_availabilityDuration = ihp_availabilityDuration p,
                   hp_description = ihp_description p,
                   hp_houseRules = ihp_houseRules p,
                   hp_amenities = ihp_amenities p,
                   hp_location = ihp_location p,
                   hp_address = ihp_address p,
                   hp_phoneNumber = ihp_phoneNumber p,
                   hp_petFriendly = default_false (ihp_petFriendly p),
                   hp_smokingAllowed = default_false (ihp_smokingAllowed p),
                   hp_accessibilityFeatures = ihp_accessibilityFeatures p,
                   hp_criminalRecordChecked = default_false (ihp_criminalRecordChecked p),
                   hp_backgroundCheckDate = ihp_backgroundCheckDate p,
                   hp_additionalInfo = ihp_additionalInfo p,
                   hp_createdAt = now, hp_updatedAt = now\<rparr>
        in Inr (row, d\<lparr>hostProfiles := hostProfiles d @ [row],
                       hostProfiles_seq := hostProfiles_seq d + 1\<rparr>))"

definition getRefugeeProfile :: "db \<Rightarrow> string \<Rightarrow> refugee_profile option" where
  "getRefugeeProfile d userId = find (\<lambda>p. rp_userId p = userId) (refugeeProfiles d)"

definition getHostProfile :: "db \<Rightarrow> string \<Rightarrow> host_profile option" where
  "getHostProfile d userId = find (\<lambda>p. hp_userId p = userId) (hostProfiles d)"

definition updateProfileStatus :: "db \<Rightarrow> timestamp \<Rightarrow> string \<Rightarrow> profile_status \<Rightarrow> db" where
  "updateProfileStatus d now userId status =
     d\<lparr>users := map (\<lambda>u. if u_id u = userId
                           then u\<lparr>u_profileStatus := status, u_updatedAt := Some now\<rparr>
                           else u) (users d)\<rparr>"

text \<open>
  The inner join of \<^verbatim>\<open>users\<close> and \<^verbatim>\<open>host_profiles\<close> on the user id, filtered on
  status and role; each joined row becomes the user with its \<^verbatim>\<open>hostProfile\<close>.
\<close>

definition getApprovedHosts :: "db \<Rightarrow> (user \<times> host_profile) list" where
  "getApprovedHosts d =
     concat (map (\<lambda>u. map (\<lambda>p. (u, p))
                         (filter (\<lambda>p. u_id u = hp_userId p
                                       \<and> u_profileStatus u = Approved \<and> u_role u = Host)
                                 (hostProfiles d)))
                 (users d))"

definition sendMessage :: "db \<Rightarrow> timestamp \<Rightarrow> insert_message \<Rightarrow> db_error + (message \<times> db)" where
  "sendMessage d now msg =
     (if \<not> user_exists d (im_senderId msg) \<or> \<not> user_exists d (im_receiverId msg)
      then Inl ForeignKeyViolation
      else
        let row = \<lparr>m_id = messages_seq d, m_senderId = im_senderId msg,
                   m_receiverId = im_receiverId msg, m_content = im_content msg,
                   m_status = (case im_status msg of None \<Rightarrow> Sent | Some s \<Rightarrow> s),
                   m_createdAt = now, m_readAt = None\<rparr>
        in Inr (row, d\<lparr>messages := messages d @ [row], messages_seq := messages_seq d + 1\<rparr>))"

text \<open>\<^verbatim>\<open>ORDER BY created_at ASC\<close> over the rows the \<^verbatim>\<open>WHERE\<close> clause keeps.\<close>

definition getConversation :: "db \<Rightarrow> string \<Rightarrow> string \<Rightarrow> message list" where
  "getConversation d userId1 userId2 =
     sort_key m_createdAt
       (filter (\<lambda>m. (m_senderId m = userId1 \<and> m_receiverId m = userId2)
                   \<or> (m_senderId m = userId2 \<and> m_receiverId m = userId1))
               (messages d))"

definition createContract :: "db \<Rightarrow> timestamp \<Rightarrow> insert_contract \<Rightarrow> db_error + (contract \<times> db)" where
  "createContract d now c =
     (if \<not> user_exists d (ic_refugeeId c) \<or> \<not> user_exists d (ic_hostId c)
      then Inl ForeignKeyViolation
      else
        let row = \<lparr>c_id = contracts_seq d, c_refugeeId = ic_refugeeId c, c_hostId = ic_hostId c,
                   c_status = (case ic_status c of None \<Rightarrow> Proposed | Some s \<Rightarrow> s),
                   c_terms = ic_terms c, c_duration = ic_duration c,
                   c_startDate = ic_startDate c, c_endDate = ic_endDate c,
                   c_refugeeSignedAt = None, c_hostSignedAt = None,
                   c_adminApprovedAt = None, c_adminApprovedBy = None,
                   c_createdAt = now, c_updatedAt = now\<rparr>
        in Inr (row, d\<lparr>contracts := contracts d @ [row], contracts_seq := contracts_seq d + 1\<rparr>))"

definition getContract :: "db \<Rightarrow> int \<Rightarrow> contract option" where
  "getContract d cid = find (\<lambda>c. c_id c = cid) (contracts d)"

text \<open>
  \<^verbatim>\<open>userType === "refugee" ? { refugeeSignedAt: new Date() } : { hostSignedAt: new Date() }\<close>,
  written to every row with the given id.
\<close>

definition signContract :: "db \<Rightarrow> timestamp \<Rightarrow> int \<Rightarrow> user_role \<Rightarrow> db" where
  "signContract d now contractId userType =
     d\<lparr>contracts := map (\<lambda>c. if c_id c = contractId
                               then (if userType = Refugee
                                     then c\<lparr>c_refugeeSignedAt := Some now\<rparr>
                                     else c\<lparr>c_hostSignedAt := Some now\<rparr>)
                               else c) (contracts d)\<rparr>"

text \<open>
  The approval is written to every row with the given id. The route passes the id of
  its caller, who has a user row, so the foreign key of \<^verbatim>\<open>admin_approved_by\<close> holds.
\<close>

definition approveContract :: "db \<Rightarrow> timestamp \<Rightarrow> int \<Rightarrow> string \<Rightarrow> db" where
  "approveContract d now contractId adminId =
     d\<lparr>contracts := map (\<lambda>c. if c_id c = contractId
                               then c\<lparr>c_adminApprovedAt := Some now,
                                      c_adminApprovedBy := Some adminId,
                                      c_status := Completed\<rparr>
                               else c) (contracts d)\<rparr>"

definition createNotification ::
  "db \<Rightarrow> timestamp \<Rightarrow> insert_notification \<Rightarrow> db_error + (notification \<times> db)" where
  "createNotification d now n =
     (if \<not> user_exists d (in_userId n) then Inl ForeignKeyViolation
      else
        let row = \<lparr>n_id = notifications_seq d, n_userId = in_userId n, n_title = in_title n,
                   n_content = in_content n, n_type = in_type n, n_read = False,
                   n_createdAt = now\<rparr>
        in Inr (row, d\<lparr>notifications := notifications d @ [row],
                       notifications_seq := notifications_seq d + 1\<rparr>))"

text \<open>
  The update selects on \<^verbatim>\<open>notifications.id\<close>; the database refuses an id outside the
  range of that column.
\<close>

definition markNotificationAsRead :: "db \<Rightarrow> int \<Rightarrow> db_error + db" where
  "markNotificationAsRead d notificationId =
     (if int4 notificationId
      then Inr (d\<lparr>notifications :=
                    map (\<lambda>n. if n_id n = notificationId then n\<lparr>n_read := True\<rparr> else n)
                        (notifications d)\<rparr>)
      else Inl NumericValueOutOfRange)"

section \<open>Routes (registerRoutes)\<close>

text \<open>
  Every route below is behind \<^verbatim>\<open>isAuthenticated\<close>; \<open>sub\<close> is \<^verbatim>\<open>req.user.claims.sub\<close>,
  the id of the signed-in user. A handler takes the database and the clock and returns
  the response (status code and JSON body) with the database it leaves behind. The
  \<^verbatim>\<open>catch\<close> block of a handler answers with its error code; what was written before
  the exception stays written, as no handler opens a transaction. The numeric path
  parameter of a route is the number \<^verbatim>\<open>parseInt\<close> returns.
\<close>

datatype payload =
    Message_json string
  | Success_json
  | RefugeeProfile_json refugee_profile
  | HostProfile_json host_profile
  | Hosts_json "(user \<times> host_profile) list"
  | Messages_json "message list"
  | NewMessage_json message
  | Contract_json contract

type_synonym response = "nat \<times> payload"

text \<open>\<^verbatim>\<open>req.user.claims.first_name || "User"\<close>: an empty string is falsy as well.\<close>

definition first_name_or_User :: "string option \<Rightarrow> string" where
  "first_name_or_User fn = (case fn of None \<Rightarrow> ''User'' | Some s \<Rightarrow> if s = [] then ''User'' else s)"

text \<open>POST /api/profiles/refugee\<close>

definition post_profiles_refugee ::
  "db \<Rightarrow> timestamp \<Rightarrow> string \<Rightarrow> string option \<Rightarrow> refugee_profile_body \<Rightarrow> response \<times> db" where
  "post_profiles_refugee d now sub first_name body =
     (case insertRefugeeProfileSchema_parse body of
        None \<Rightarrow> ((400, Message_json ''Failed to create profile''), d)
      | Some profileData \<Rightarrow>
          (case createRefugeeProfile d now profileData sub of
             Inl e \<Rightarrow> ((400, Message_json ''Failed to create profile''), d)
           | Inr (profile, d1) \<Rightarrow>
               (case createNotification d1 now
                       \<lparr>in_userId = ''admin'', in_title = ''New Refugee Profile'',
                        in_content = ''New refugee profile submitted by ''
                                       @ first_name_or_User first_name,
                        in_type = ''approval''\<rparr> of
                  Inl e \<Rightarrow> ((400, Message_json ''Failed to create profile''), d1)
                | Inr (n, d2) \<Rightarrow> ((200, RefugeeProfile_json profile), d2))))"

text \<open>POST /api/profiles/host\<close>

definition post_profiles_host ::
  "db \<Rightarrow> timestamp \<Rightarrow> string \<Rightarrow> string option \<Rightarrow> host_profile_body \<Rightarrow> response \<times> db" where
  "post_profiles_host d now sub first_name body =
     (case insertHostProfileSchema_parse body of
        None \<Rightarrow> ((400, Message_json ''Failed to create profile''), d)
      | Some profileData \<Rightarrow>
          (case createHostProfile d now profileData sub of
             Inl e \<Rightarrow> ((400, Message_json ''Failed to create profile''), d)
           | Inr (profile, d1) \<Rightarrow>
               (case createNotification d1 now
                       \<lparr>in_userId = ''admin'', in_title = ''New Host Profile'',
                        in_content = ''New host profile submitted by ''
                                       @ first_name_or_User first_name,
                        in_type = ''approval''\<rparr> of
                  Inl e \<Rightarrow> ((400, Message_json ''Failed to create profile''), d1)
                | Inr (n, d2) \<Rightarrow> ((200, HostProfile_json profile), d2))))"

text \<open>
  POST /api/admin/approve-profile, with \<^verbatim>\<open>{ userId, approved }\<close> of the body:
  \<open>userId\<close> a string and \<open>approved\<close> its truthiness. \<^verbatim>\<open>user?.role !== 'admin'\<close> also
  holds when the caller has no row.
\<close>

definition post_admin_approve_profile ::
  "db \<Rightarrow> timestamp \<Rightarrow> string \<Rightarrow> string \<Rightarrow> bool \<Rightarrow> response \<times> db" where
  "post_admin_approve_profile d now sub userId approved =
     (if map_option u_role (getUser d sub) \<noteq> Some Admin
      then ((403, Message_json ''Admin access required''), d)
      else
        let status = (if approved then Approved else Rejected);
            d1 = updateProfileStatus d now userId status
        in (case createNotification d1 now
                   \<lparr>in_userId = userId,
                    in_title = ''Profile '' @ (if approved then ''Approved'' else ''Rejected''),
                    in_content = ''Your profile has been ''
                                   @ (if approved then ''approved'' else ''rejected'')
                                   @ '' by the admin team.'',
                    in_type = ''approval''\<rparr> of
              Inl e \<Rightarrow> ((500, Message_json ''Failed to update profile''), d1)
            | Inr (n, d2) \<Rightarrow> ((200, Success_json), d2)))"

text \<open>GET /api/hosts/available\<close>

definition get_hosts_available :: "db \<Rightarrow> string \<Rightarrow> response" where
  "get_hosts_available d sub =
     (if map_option u_profileStatus (getUser d sub) \<noteq> Some Approved
      then (403, Message_json ''Profile must be approved to view hosts'')
      else (200, Hosts_json (getApprovedHosts d)))"

text \<open>
  POST /api/messages. The broadcast over the WebSocket server writes nothing to the
  database and is not part of the response.
\<close>

definition post_messages :: "db \<Rightarrow> timestamp \<Rightarrow> string \<Rightarrow> message_body \<Rightarrow> response \<times> db" where
  "post_messages d now sub body =
     (case insertMessageSchema_parse sub body of
        None \<Rightarrow> ((400, Message_json ''Failed to send message''), d)
      | Some messageData \<Rightarrow>
          (case sendMessage d now messageData of
             Inl e \<Rightarrow> ((400, Message_json ''Failed to send message''), d)
           | Inr (msg, d1) \<Rightarrow> ((200, NewMessage_json msg), d1)))"

text \<open>GET /api/messages/:userId\<close>

definition get_messages_userId :: "db \<Rightarrow> string \<Rightarrow> string \<Rightarrow> response" where
  "get_messages_userId d sub otherUserId = (200, Messages_json (getConversation d sub otherUserId))"

text \<open>
  POST /api/contracts. The body is parsed first; then the caller's own id overwrites
  the party id of the caller's role.
\<close>

definition post_contracts :: "db \<Rightarrow> timestamp \<Rightarrow> string \<Rightarrow> contract_body \<Rightarrow> response \<times> db" where
  "post_contracts d now sub body =
     (let role = map_option u_role (getUser d sub) in
      case insertContractSchema_parse body of
        None \<Rightarrow> ((400, Message_json ''Failed to create contract''), d)
      | Some parsed \<Rightarrow>
          let contractData =
                (if role = Some Refugee then parsed\<lparr>ic_refugeeId := sub\<rparr>
                 else if role = Some Host then parsed\<lparr>ic_hostId := sub\<rparr>
                 else parsed)
          in (case createContract d now contractData of
                Inl e \<Rightarrow> ((400, Message_json ''Failed to create contract''), d)
              | Inr (contract, d1) \<Rightarrow>
                  let notifyUserId = (if role = Some Refugee then ic_hostId contractData
                                      else ic_refugeeId contractData)
                  in (case createNotification d1 now
                             \<lparr>in_userId = notifyUserId, in_title = ''New Contract Proposal'',
                              in_content = ''You have received a new contract proposal'',
                              in_type = ''contract''\<rparr> of
                        Inl e \<Rightarrow> ((400, Message_json ''Failed to create contract''), d1)
                      | Inr (n, d2) \<Rightarrow> ((200, Contract_json contract), d2))))"

text \<open>POST /api/contracts/:id/sign\<close>

definition post_contracts_sign :: "db \<Rightarrow> timestamp \<Rightarrow> string \<Rightarrow> int \<Rightarrow> response \<times> db" where
  "post_contracts_sign d now sub contractId =
     (case getUser d sub of
        None \<Rightarrow> ((403, Message_json ''Only refugees and hosts can sign contracts''), d)
      | Some user \<Rightarrow>
          if u_role user \<noteq> Refugee \<and> u_role user \<noteq> Host
          then ((403, Message_json ''Only refugees and hosts can sign contracts''), d)
          else
            let d1 = signContract d now contractId (u_role user) in
            (case getContract d1 contractId of
               None \<Rightarrow> ((200, Success_json), d1)
             | Some contract \<Rightarrow>
                 if c_refugeeSignedAt contract \<noteq> None \<and> c_hostSignedAt contract \<noteq> None
                 then (case createNotification d1 now
                              \<lparr>in_userId = ''admin'', in_title = ''Contract Ready for Approval'',
                               in_content = ''A contract has been signed by both parties and needs admin approval'',
                               in_type = ''contract''\<rparr> of
                         Inl e \<Rightarrow> ((500, Message_json ''Failed to sign contract''), d1)
                       | Inr (n, d2) \<Rightarrow> ((200, Success_json), d2))
                 else ((200, Success_json), d1)))"

text \<open>POST /api/contracts/:id/approve\<close>

definition post_contracts_approve :: "db \<Rightarrow> timestamp \<Rightarrow> string \<Rightarrow> int \<Rightarrow> response \<times> db" where
  "post_contracts_approve d now sub contractId =
     (if map_option u_role (getUser d sub) \<noteq> Some Admin
      then ((403, Message_json ''Admin access required''), d)
      else
        let d1 = approveContract d now contractId sub in
        (case getContract d1 contractId of
           None \<Rightarrow> ((200, Success_json), d1)
         | Some contract \<Rightarrow>
             (case createNotification d1 now
                     \<lparr>in_userId = c_refugeeId contract, in_title = ''Contract Approved'',
                      in_content = ''Your housing contract has been approved by admin'',
                      in_type = ''contract''\<rparr> of
                Inl e \<Rightarrow> ((500, Message_json ''Failed to approve contract''), d1)
              | Inr (n1, d2) \<Rightarrow>
                  (case createNotification d2 now
                          \<lparr>in_userId = c_hostId contract, in_title = ''Contract Approved'',
                           in_content = ''Your hosting contract has been approved by admin'',
                           in_type = ''contract''\<rparr> of
                     Inl e \<Rightarrow> ((500, Message_json ''Failed to approve contract''), d2)
                   | Inr (n2, d3) \<Rightarrow> ((200, Success_json), d3)))))"

text \<open>
  POST /api/notifications/:id/read. The handler does not read \<^verbatim>\<open>req.user\<close>; \<open>sub\<close> is
  there to name the caller. When the database refuses the id, the \<^verbatim>\<open>catch\<close> block
  answers 500.
\<close>

definition post_notifications_read :: "db \<Rightarrow> string \<Rightarrow> int \<Rightarrow> response \<times> db" where
  "post_notifications_read d sub notificationId =
     (case markNotificationAsRead d notificationId of
        Inl e \<Rightarrow> ((500, Message_json ''Failed to mark notification as read''), d)
      | Inr d1 \<Rightarrow> ((200, Success_json), d1))"

subsection \<open>Sequences of requests\<close>

text \<open>
  The requests that write to the database, each with the signed-in user and the time of
  the request; \<open>run\<close> serves a list of them one after the other. User rows are
  written by the sign-in module through \<^verbatim>\<open>upsertUser\<close>, outside the routes, and the
  route POST /api/auth/update-role calls \<^verbatim>\<open>storage.updateUserRole\<close>, which
  \<^verbatim>\<open>DatabaseStorage\<close> does not define; neither is a request here.
\<close>

datatype request =
    Post_profiles_refugee string "string option" refugee_profile_body
  | Post_profiles_host string "string option" host_profile_body
  | Post_admin_approve_profile string string bool
  | Post_messages string message_body
  | Post_contracts string contract_body
  | Post_contracts_sign string int
  | Post_contracts_approve string int
  | Post_notifications_read string int

fun handle :: "db \<Rightarrow> timestamp \<Rightarrow> request \<Rightarrow> response \<times> db" where
  "handle d now (Post_profiles_refugee sub fn body) = post_profiles_refugee d now sub fn body"
| "handle d now (Post_profiles_host sub fn body) = post_profiles_host d now sub fn body"
| "handle d now (Post_admin_approve_profile sub userId approved) =
     post_admin_approve_profile d now sub userId approved"
| "handle d now (Post_messages sub body) = post_messages d now sub body"
| "handle d now (Post_contracts sub body) = post_contracts d now sub body"
| "handle d now (Post_contracts_sign sub cid) = post_contracts_sign d now sub cid"
| "handle d now (Post_contracts_approve sub cid) = post_contracts_approve d now sub cid"
| "handle d now (Post_notifications_read sub nid) = post_notifications_read d sub nid"

fun run :: "db \<Rightarrow> (timestamp \<times> request) list \<Rightarrow> db" where
  "run d [] = d"
| "run d ((now, r) # rs) = run (snd (handle d now r)) rs"

text \<open>Whether a request is a contract proposal that carries status completed.\<close>

fun proposes_completed :: "request \<Rightarrow> bool" where
  "proposes_completed (Post_contracts sub body) = (cb_status body = Given Completed)"
| "proposes_completed r = False"

section \<open>A database to evaluate on\<close>

text \<open>
  Two refugees, two hosts and an administrator whose id is the literal \<^verbatim>\<open>"admin"\<close> that
  the routes notify. Refugee \<open>r1\<close> and host \<open>h1\<close> have a profile each, are approved
  and are the two parties of contract 1, which nobody has signed; \<open>r2\<close> was rejected;
  host \<open>h2\<close> has no host profile and has not been reviewed.
\<close>

definition ex_refugee_profile_r1 :: refugee_profile where
  "ex_refugee_profile_r1 =
     \<lparr>rp_id = 1, rp_userId = ''r1'', rp_familySize = 3, rp_estimatedStay = ''1-3 months'',
      rp_medicalNeeds = None, rp_specialRequirements = None, rp_languages = Some [''uk'', ''en''],
      rp_countryOfOrigin = Some ''Ukraine'', rp_phoneNumber = None, rp_emergencyContact = None,
      rp_additionalInfo = None, rp_createdAt = 5, rp_updatedAt = 5\<rparr>"

definition ex_host_profile_h1 :: host_profile where
  "ex_host_profile_h1 =
     \<lparr>hp_id = 1, hp_userId = ''h1'', hp_accommodationType = ''room'', hp_maxOccupants = 4,
      hp_availabilityDuration = ''6 months'', hp_description = None, hp_houseRules = None,
      hp_amenities = Some [''wifi''], hp_location = ''Bern'', hp_address = None,
      hp_phoneNumber = None, hp_petFriendly = Some False, hp_smokingAllowed = Some False,
      hp_accessibilityFeatures = None, hp_criminalRecordChecked = Some True,
      hp_backgroundCheckDate = Some 4, hp_additionalInfo = None,
      hp_createdAt = 6, hp_updatedAt = 6\<rparr>"

definition ex_db :: db where
  "ex_db =
     \<lparr>users =
        [\<lparr>u_id = ''r1'', u_role = Refugee, u_profileStatus = Approved, u_updatedAt = None\<rparr>,
         \<lparr>u_id = ''r2'', u_role = Refugee, u_profileStatus = Rejected, u_updatedAt = None\<rparr>,
         \<lparr>u_id = ''h1'', u_role = Host, u_profileStatus = Approved, u_updatedAt = None\<rparr>,
         \<lparr>u_id = ''h2'', u_role = Host, u_profileStatus = Pending, u_updatedAt = None\<rparr>,
         \<lparr>u_id = ''admin'', u_role = Admin, u_profileStatus = Pending, u_updatedAt = None\<rparr>],
      refugeeProfiles = [ex_refugee_profile_r1],
      hostProfiles = [ex_host_profile_h1],
      messages =
        [\<lparr>m_id = 1, m_senderId = ''r1'', m_receiverId = ''h1'', m_content = ''hello'',
          m_status = Sent, m_createdAt = 30, m_readAt = None\<rparr>,
         \<lparr>m_id = 2, m_senderId = ''h1'', m_receiverId = ''r1'', m_content = ''welcome'',
          m_status = Sent, m_createdAt = 10, m_readAt = None\<rparr>,
         \<lparr>m_id = 3, m_senderId = ''r2'', m_receiverId = ''h1'', m_content = ''hi'',
          m_status = Sent, m_createdAt = 20, m_readAt = None\<rparr>],
      contracts =
        [\<lparr>c_id = 1, c_refugeeId = ''r1'', c_hostId = ''h1'', c_status = Proposed,
          c_terms = ''one room'', c_duration = ''3 months'',
          c_startDate = None, c_endDate = None,
          c_refugeeSignedAt = None, c_hostSignedAt = None,
          c_adminApprovedAt = None, c_adminApprovedBy = None,
          c_createdAt = 40, c_updatedAt = 40\<rparr>],
      notifications =
        [\<lparr>n_id = 1, n_userId = ''r1'', n_title = ''Profile Approved'',
          n_content = ''Your profile has been approved by the admin team.'',
          n_type = ''approval'', n_read = False, n_createdAt = 7\<rparr>],
      refugeeProfiles_seq = 2, hostProfiles_seq = 2, messages_seq = 4,
      contracts_seq = 2, notifications_seq = 2\<rparr>"

text \<open>The same database before any contract was proposed, and a proposal of \<open>r1\<close> to \<open>h1\<close>.\<close>

definition ex_db_no_contracts :: db where
  "ex_db_no_contracts = ex_db\<lparr>contracts := [], contracts_seq := 1\<rparr>"

definition ex_contract_body :: contract_body where
  "ex_contract_body =
     \<lparr>cb_refugeeId = Given ''r1'', cb_hostId = Given ''h1'', cb_status = Absent,
      cb_terms = Given ''one room'', cb_duration = Given ''3 months'',
      cb_startDate = Absent, cb_endDate = Absent\<rparr>"

text \<open>
  Contract 1 from proposal to ratification: \<open>r1\<close> proposes, \<open>h1\<close> signs, \<open>r1\<close> signs,
  the administrator approves.
\<close>

definition ex_requests :: "(timestamp \<times> request) list" where
  "ex_requests =
     [(100, Post_contracts ''r1'' ex_contract_body),
      (200, Post_contracts_sign ''h1'' 1),
      (300, Post_contracts_sign ''r1'' 1),
      (400, Post_contracts_approve ''admin'' 1)]"






section \<open>What the tables look like after a request\<close>

lemma createNotification_Inr:
  assumes "createNotification d now n = Inr (row, d')"
  shows "users d' = users d" and "contracts d' = contracts d"
    and "refugeeProfiles d' = refugeeProfiles d" and "hostProfiles d' = hostProfiles d"
    and "messages d' = messages d"
  using assms by (auto simp: createNotification_def Let_def split: if_splits)

lemma users_signContract [simp]: "users (signContract d now cid ut) = users d"
  by (simp add: signContract_def)

lemma users_approveContract [simp]: "users (approveContract d now cid a) = users d"
  by (simp add: approveContract_def)

lemma contracts_post_contracts_sign:
  "contracts (snd (post_contracts_sign d now sub cid)) =
     (case getUser d sub of
        None \<Rightarrow> contracts d
      | Some u \<Rightarrow> if u_role u = Admin then contracts d
                  else contracts (signContract d now cid (u_role u)))"
  by (cases "getUser d sub")
     (auto simp: post_contracts_sign_def Let_def createNotification_Inr
           split: option.splits sum.splits prod.splits user_role.splits
           intro: user_role.exhaust)

lemma users_post_contracts_sign: "users (snd (post_contracts_sign d now sub cid)) = users d"
  by (auto simp: post_contracts_sign_def Let_def createNotification_Inr
           split: option.splits sum.splits prod.splits)

lemma getUser_cong: "users d' = users d \<Longrightarrow> getUser d' sub = getUser d sub"
  by (simp add: getUser_def)

lemma contracts_signContract:
  "contracts (signContract d now cid ut) =
     map (\<lambda>c. if c_id c = cid
              then (if ut = Refugee then c\<lparr>c_refugeeSignedAt := Some now\<rparr>
                    else c\<lparr>c_hostSignedAt := Some now\<rparr>)
              else c) (contracts d)"
  by (simp add: signContract_def)

lemma contracts_approveContract:
  "contracts (approveContract d now cid a) =
     map (\<lambda>c. if c_id c = cid
              then c\<lparr>c_adminApprovedAt := Some now, c_adminApprovedBy := Some a,
                     c_status := Completed\<rparr>
              else c) (contracts d)"
  by (simp add: approveContract_def)

lemma contracts_post_contracts_approve:
  "contracts (snd (post_contracts_approve d now sub cid)) =
     (if map_option u_role (getUser d sub) = Some Admin
      then contracts (approveContract d now cid sub) else contracts d)"
  by (auto simp: post_contracts_approve_def Let_def createNotification_Inr
           split: option.splits sum.splits prod.splits)

lemma createRefugeeProfile_Inr:
  assumes "createRefugeeProfile d now p uid = Inr (row, d')"
  shows "users d' = users d" and "contracts d' = contracts d"
    and "refugeeProfiles d' = refugeeProfiles d @ [row]" and "hostProfiles d' = hostProfiles d"
    and "rp_userId row = uid"
  using assms by (auto simp: createRefugeeProfile_def Let_def split: if_splits)

lemma createHostProfile_Inr:
  assumes "createHostProfile d now p uid = Inr (row, d')"
  shows "users d' = users d" and "contracts d' = contracts d"
    and "hostProfiles d' = hostProfiles d @ [row]" and "refugeeProfiles d' = refugeeProfiles d"
    and "hp_userId row = uid"
  using assms by (auto simp: createHostProfile_def Let_def split: if_splits)

lemma sendMessage_Inr:
  assumes "sendMessage d now m = Inr (row, d')"
  shows "users d' = users d" and "contracts d' = contracts d"
  using assms by (auto simp: sendMessage_def Let_def split: if_splits)

lemma createContract_Inr:
  assumes "createContract d now c = Inr (row, d')"
  shows "users d' = users d" and "contracts d' = contracts d @ [row]"
    and "c_adminApprovedAt row = None"
    and "c_status row = (case ic_status c of None \<Rightarrow> Proposed | Some s \<Rightarrow> s)"
  using assms by (auto simp: createContract_def Let_def split: if_splits)

lemma users_post_profiles_refugee:
  "users (snd (post_profiles_refugee d now sub fn body)) = users d"
  by (auto simp: post_profiles_refugee_def createRefugeeProfile_Inr createNotification_Inr
           split: option.splits sum.splits prod.splits)

lemma users_post_profiles_host:
  "users (snd (post_profiles_host d now sub fn body)) = users d"
  by (auto simp: post_profiles_host_def createHostProfile_Inr createNotification_Inr
           split: option.splits sum.splits prod.splits)

lemma users_post_messages: "users (snd (post_messages d now sub body)) = users d"
  by (auto simp: post_messages_def sendMessage_Inr split: option.splits sum.splits prod.splits)

lemma insertContractSchema_parse_status:
  "insertContractSchema_parse b = Some parsed \<Longrightarrow> optional (cb_status b) = Some (ic_status parsed)"
  by (auto simp: insertContractSchema_parse_def split: option.splits)

lemma post_contracts_cases:
  obtains (rejected) "snd (post_contracts d now sub body) = d"
  | (created) cd row d1 where "createContract d now cd = Inr (row, d1)"
      and "users (snd (post_contracts d now sub body)) = users d1"
      and "contracts (snd (post_contracts d now sub body)) = contracts d1"
      and "c_status row = Completed \<longrightarrow> cb_status body = Given Completed"
proof (cases "insertContractSchema_parse body")
  case None
  then have "snd (post_contracts d now sub body) = d"
    by (simp add: post_contracts_def)
  then show ?thesis by (rule rejected)
next
  case (Some parsed)
  define role where "role = map_option u_role (getUser d sub)"
  define cd where "cd = (if role = Some Refugee then parsed\<lparr>ic_refugeeId := sub\<rparr>
                         else if role = Some Host then parsed\<lparr>ic_hostId := sub\<rparr>
                         else parsed)"
  define n where "n = \<lparr>in_userId = (if role = Some Refugee then ic_hostId cd else ic_refugeeId cd),
                        in_title = ''New Contract Proposal'',
                        in_content = ''You have received a new contract proposal'',
                        in_type = ''contract''\<rparr>"
  have eq: "post_contracts d now sub body =
      (case createContract d now cd of
         Inl e \<Rightarrow> ((400, Message_json ''Failed to create contract''), d)
       | Inr (contract, d1) \<Rightarrow>
           (case createNotification d1 now n of
              Inl e \<Rightarrow> ((400, Message_json ''Failed to create contract''), d1)
            | Inr (nn, d2) \<Rightarrow> ((200, Contract_json contract), d2)))"
    unfolding post_contracts_def Some role_def cd_def n_def Let_def by simp
  show ?thesis
  proof (cases "createContract d now cd")
    case (Inl e)
    then have "snd (post_contracts d now sub body) = d" by (simp add: eq)
    then show ?thesis by (rule rejected)
  next
    case (Inr p)
    obtain row d1 where p: "p = (row, d1)" by (cases p)
    have "users (snd (post_contracts d now sub body)) = users d1
          \<and> contracts (snd (post_contracts d now sub body)) = contracts d1"
      by (cases "createNotification d1 now n")
         (auto simp: eq Inr p createNotification_Inr)
    moreover have "c_status row = Completed \<longrightarrow> cb_status body = Given Completed"
    proof
      assume c: "c_status row = Completed"
      have "ic_status cd = ic_status parsed" by (simp add: cd_def)
      moreover have "c_status row = (case ic_status cd of None \<Rightarrow> Proposed | Some st \<Rightarrow> st)"
        using Inr p by (simp add: createContract_Inr)
      ultimately have "ic_status parsed = Some Completed"
        using c by (simp split: option.splits)
      then show "cb_status body = Given Completed"
        using insertContractSchema_parse_status [OF Some] by (cases "cb_status body") simp_all
    qed
    ultimately show ?thesis using Inr p created by blast
  qed
qed

lemma users_post_contracts: "users (snd (post_contracts d now sub body)) = users d"
  by (cases rule: post_contracts_cases [of d now sub body]) (simp_all add: createContract_Inr)

lemma users_post_contracts_approve:
  "users (snd (post_contracts_approve d now sub cid)) = users d"
  by (auto simp: post_contracts_approve_def Let_def createNotification_Inr
           split: option.splits sum.splits prod.splits)

lemma users_post_notifications_read:
  "users (snd (post_notifications_read d sub nid)) = users d"
  by (simp add: post_notifications_read_def markNotificationAsRead_def)

lemma users_updateProfileStatus:
  "users (updateProfileStatus d now uid st) =
     map (\<lambda>u. if u_id u = uid then u\<lparr>u_profileStatus := st, u_updatedAt := Some now\<rparr> else u)
         (users d)"
  by (simp add: updateProfileStatus_def)

lemma users_post_admin_approve_profile:
  "users (snd (post_admin_approve_profile d now sub uid approved)) =
     (if map_option u_role (getUser d sub) = Some Admin
      then users (updateProfileStatus d now uid (if approved then Approved else Rejected))
      else users d)"
  by (auto simp: post_admin_approve_profile_def Let_def createNotification_Inr
           split: option.splits sum.splits prod.splits)

lemma users_handle_other:
  assumes "\<And>sub uid approved. r \<noteq> Post_admin_approve_profile sub uid approved"
  shows "users (snd (handle d now r)) = users d"
proof (cases r)
  case (Post_admin_approve_profile s t a)
  with assms show ?thesis by blast
qed (simp_all add: users_post_profiles_refugee users_post_profiles_host users_post_messages
        users_post_contracts users_post_contracts_sign users_post_contracts_approve
        users_post_notifications_read)

text \<open>One request: ids of the user rows stay, and a reviewed status is never pending again.\<close>

lemma users_updateProfileStatus_ids:
  "map u_id (users (updateProfileStatus d now uid st)) = map u_id (users d)"
  by (simp add: users_updateProfileStatus comp_def if_distrib cong: if_cong)

lemma users_updateProfileStatus_not_Pending:
  assumes "i < length (users d)" and "u_profileStatus (users d ! i) \<noteq> Pending"
    and "st \<noteq> Pending"
  shows "u_profileStatus (users (updateProfileStatus d now uid st) ! i) \<noteq> Pending"
  using assms by (simp add: users_updateProfileStatus)

lemma users_handle_step:
  "map u_id (users (snd (handle d now r))) = map u_id (users d)
   \<and> (\<forall>i<length (users d). u_profileStatus (users d ! i) \<noteq> Pending
         \<longrightarrow> u_profileStatus (users (snd (handle d now r)) ! i) \<noteq> Pending)"
proof (cases "\<exists>sub uid approved. r = Post_admin_approve_profile sub uid approved")
  case True
  then obtain sub uid approved where r: "r = Post_admin_approve_profile sub uid approved"
    by blast
  have st: "(if approved then Approved else Rejected) \<noteq> Pending" by simp
  show ?thesis
    unfolding r handle.simps users_post_admin_approve_profile
    using users_updateProfileStatus_ids [of d now uid "if approved then Approved else Rejected"]
          users_updateProfileStatus_not_Pending [OF _ _ st, of _ d now uid]
    by (cases "map_option u_role (getUser d sub) = Some Admin") simp_all
next
  case False
  then have "users (snd (handle d now r)) = users d"
    by (intro users_handle_other) blast
  then show ?thesis by simp
qed

lemma users_run:
  "map u_id (users (run d rs)) = map u_id (users d)
   \<and> (\<forall>i<length (users d). u_profileStatus (users d ! i) \<noteq> Pending
         \<longrightarrow> u_profileStatus (users (run d rs) ! i) \<noteq> Pending)"
proof (induction rs arbitrary: d)
  case Nil
  show ?case by simp
next
  case (Cons x rs)
  obtain now r where x: "x = (now, r)" by (cases x)
  let ?d1 = "snd (handle d now r)"
  have step: "map u_id (users ?d1) = map u_id (users d)"
    "\<forall>i<length (users d). u_profileStatus (users d ! i) \<noteq> Pending
         \<longrightarrow> u_profileStatus (users ?d1 ! i) \<noteq> Pending"
    using users_handle_step [of d now r] by blast+
  have len: "length (users ?d1) = length (users d)"
    using step(1) by (metis length_map)
  show ?case
    using Cons.IH [of ?d1] step len by (simp add: x)
qed

lemma contracts_post_profiles_refugee:
  "contracts (snd (post_profiles_refugee d now sub fn body)) = contracts d"
  by (auto simp: post_profiles_refugee_def createRefugeeProfile_Inr createNotification_Inr
           split: option.splits sum.splits prod.splits)

lemma contracts_post_profiles_host:
  "contracts (snd (post_profiles_host d now sub fn body)) = contracts d"
  by (auto simp: post_profiles_host_def createHostProfile_Inr createNotification_Inr
           split: option.splits sum.splits prod.splits)

lemma contracts_post_messages: "contracts (snd (post_messages d now sub body)) = contracts d"
  by (auto simp: post_messages_def sendMessage_Inr split: option.splits sum.splits prod.splits)

lemma contracts_post_notifications_read:
  "contracts (snd (post_notifications_read d sub nid)) = contracts d"
  by (simp add: post_notifications_read_def markNotificationAsRead_def)

lemma contracts_post_admin_approve_profile:
  "contracts (snd (post_admin_approve_profile d now sub uid approved)) = contracts d"
proof -
  have "contracts (updateProfileStatus d now uid st) = contracts d" for st
    by (simp add: updateProfileStatus_def)
  then show ?thesis
    by (auto simp: post_admin_approve_profile_def Let_def createNotification_Inr
             split: option.splits sum.splits prod.splits)
qed

text \<open>
  One request rewrites each contract row in place and may append rows. A row that is
  approved stays approved; a row on which approval implies completion, or completion
  implies approval, stays so; an appended row is not approved, and it is completed only
  if the request is a proposal that carries status completed.
\<close>

lemma contracts_handle_shape:
  "\<exists>f new. contracts (snd (handle d now r)) = map f (contracts d) @ new
     \<and> (\<forall>c. c_adminApprovedAt c \<noteq> None \<longrightarrow> c_adminApprovedAt (f c) \<noteq> None)
     \<and> (\<forall>c. (c_adminApprovedAt c \<noteq> None \<longrightarrow> c_status c = Completed)
            \<longrightarrow> (c_adminApprovedAt (f c) \<noteq> None \<longrightarrow> c_status (f c) = Completed))
     \<and> (\<forall>c. (c_status c = Completed \<longrightarrow> c_adminApprovedAt c \<noteq> None)
            \<longrightarrow> (c_status (f c) = Completed \<longrightarrow> c_adminApprovedAt (f c) \<noteq> None))
     \<and> (\<forall>c\<in>set new. c_adminApprovedAt c = None)
     \<and> (\<not> proposes_completed r \<longrightarrow> (\<forall>c\<in>set new. c_status c \<noteq> Completed))"
  (is "\<exists>f new. ?shape f new")
proof -
  have unchanged: ?thesis if "contracts (snd (handle d now r)) = contracts d"
  proof -
    have "?shape (\<lambda>c. c) []" using that by simp
    then show ?thesis by blast
  qed
  show ?thesis
  proof (cases r)
    case (Post_contracts sub body)
    show ?thesis
    proof (cases rule: post_contracts_cases [of d now sub body])
      case rejected
      then show ?thesis by (intro unchanged) (simp add: Post_contracts)
    next
      case (created cd row d1)
      have "?shape (\<lambda>c. c) [row]"
        using created by (auto simp: Post_contracts createContract_Inr)
      then show ?thesis by blast
    qed
  next
    case (Post_contracts_sign sub cid)
    show ?thesis
    proof (cases "getUser d sub")
      case None
      then show ?thesis
        by (intro unchanged) (simp add: Post_contracts_sign contracts_post_contracts_sign)
    next
      case (Some u)
      show ?thesis
      proof (cases "u_role u = Admin")
        case True
        then show ?thesis
          by (intro unchanged) (simp add: Post_contracts_sign contracts_post_contracts_sign Some)
      next
        case False
        have "?shape (\<lambda>c. if c_id c = cid
                           then (if u_role u = Refugee then c\<lparr>c_refugeeSignedAt := Some now\<rparr>
                                 else c\<lparr>c_hostSignedAt := Some now\<rparr>)
                           else c) []"
          using False
          by (simp add: Post_contracts_sign contracts_post_contracts_sign Some
                        contracts_signContract)
        then show ?thesis by blast
      qed
    qed
  next
    case (Post_contracts_approve sub cid)
    show ?thesis
    proof (cases "map_option u_role (getUser d sub) = Some Admin")
      case False
      then show ?thesis
        by (intro unchanged) (auto simp: Post_contracts_approve contracts_post_contracts_approve)
    next
      case True
      have "?shape (\<lambda>c. if c_id c = cid
                         then c\<lparr>c_adminApprovedAt := Some now, c_adminApprovedBy := Some sub,
                                c_status := Completed\<rparr>
                         else c) []"
        using True
        by (simp add: Post_contracts_approve contracts_post_contracts_approve
                      contracts_approveContract)
      then show ?thesis by blast
    qed
  next
    case (Post_profiles_refugee sub fn body)
    then show ?thesis by (intro unchanged) (simp add: contracts_post_profiles_refugee)
  next
    case (Post_profiles_host sub fn body)
    then show ?thesis by (intro unchanged) (simp add: contracts_post_profiles_host)
  next
    case (Post_admin_approve_profile sub uid approved)
    then show ?thesis by (intro unchanged) (simp add: contracts_post_admin_approve_profile)
  next
    case (Post_messages sub body)
    then show ?thesis by (intro unchanged) (simp add: contracts_post_messages)
  next
    case (Post_notifications_read sub nid)
    then show ?thesis by (intro unchanged) (simp add: contracts_post_notifications_read)
  qed
qed

lemma contracts_run_shape:
  "\<exists>f new. contracts (run d rs) = map f (contracts d) @ new
     \<and> (\<forall>c. c_adminApprovedAt c \<noteq> None \<longrightarrow> c_adminApprovedAt (f c) \<noteq> None)
     \<and> (\<forall>c. (c_adminApprovedAt c \<noteq> None \<longrightarrow> c_status c = Completed)
            \<longrightarrow> (c_adminApprovedAt (f c) \<noteq> None \<longrightarrow> c_status (f c) = Completed))
     \<and> (\<forall>c. (c_status c = Completed \<longrightarrow> c_adminApprovedAt c \<noteq> None)
            \<longrightarrow> (c_status (f c) = Completed \<longrightarrow> c_adminApprovedAt (f c) \<noteq> None))
     \<and> (\<forall>c\<in>set new. c_adminApprovedAt c \<noteq> None \<longrightarrow> c_status c = Completed)
     \<and> ((\<forall>x\<in>set rs. \<not> proposes_completed (snd x))
          \<longrightarrow> (\<forall>c\<in>set new. c_status c = Completed \<longrightarrow> c_adminApprovedAt c \<noteq> None))"
proof (induction rs arbitrary: d)
  case Nil
  show ?case
    by (intro exI [of _ "\<lambda>c. c"] exI [of _ "[]"]) simp
next
  case (Cons x rs)
  obtain now r where x: "x = (now, r)" by (cases x)
  let ?d1 = "snd (handle d now r)"
  obtain f1 new1 where s1: "contracts ?d1 = map f1 (contracts d) @ new1"
    and k1: "\<forall>c. c_adminApprovedAt c \<noteq> None \<longrightarrow> c_adminApprovedAt (f1 c) \<noteq> None"
    and i1: "\<forall>c. (c_adminApprovedAt c \<noteq> None \<longrightarrow> c_status c = Completed)
            \<longrightarrow> (c_adminApprovedAt (f1 c) \<noteq> None \<longrightarrow> c_status (f1 c) = Completed)"
    and j1: "\<forall>c. (c_status c = Completed \<longrightarrow> c_adminApprovedAt c \<noteq> None)
            \<longrightarrow> (c_status (f1 c) = Completed \<longrightarrow> c_adminApprovedAt (f1 c) \<noteq> None)"
    and n1: "\<forall>c\<in>set new1. c_adminApprovedAt c = None"
    and m1: "\<not> proposes_completed r \<longrightarrow> (\<forall>c\<in>set new1. c_status c \<noteq> Completed)"
    using contracts_handle_shape [of d now r] by blast
  obtain f2 new2 where s2: "contracts (run ?d1 rs) = map f2 (contracts ?d1) @ new2"
    and k2: "\<forall>c. c_adminApprovedAt c \<noteq> None \<longrightarrow> c_adminApprovedAt (f2 c) \<noteq> None"
    and i2: "\<forall>c. (c_adminApprovedAt c \<noteq> None \<longrightarrow> c_status c = Completed)
            \<longrightarrow> (c_adminApprovedAt (f2 c) \<noteq> None \<longrightarrow> c_status (f2 c) = Completed)"
    and j2: "\<forall>c. (c_status c = Completed \<longrightarrow> c_adminApprovedAt c \<noteq> None)
            \<longrightarrow> (c_status (f2 c) = Completed \<longrightarrow> c_adminApprovedAt (f2 c) \<noteq> None)"
    and n2: "\<forall>c\<in>set new2. c_adminApprovedAt c \<noteq> None \<longrightarrow> c_status c = Completed"
    and m2: "(\<forall>x\<in>set rs. \<not> proposes_completed (snd x))
          \<longrightarrow> (\<forall>c\<in>set new2. c_status c = Completed \<longrightarrow> c_adminApprovedAt c \<noteq> None)"
    using Cons.IH [of ?d1] by blast
  have "contracts (run d (x # rs)) = map (\<lambda>c. f2 (f1 c)) (contracts d) @ (map f2 new1 @ new2)"
    by (simp add: x s2 s1)
  moreover have "\<forall>c. c_adminApprovedAt c \<noteq> None \<longrightarrow> c_adminApprovedAt (f2 (f1 c)) \<noteq> None"
    using k1 k2 by blast
  moreover have "\<forall>c. (c_adminApprovedAt c \<noteq> None \<longrightarrow> c_status c = Completed)
            \<longrightarrow> (c_adminApprovedAt (f2 (f1 c)) \<noteq> None \<longrightarrow> c_status (f2 (f1 c)) = Completed)"
    using i1 i2 by blast
  moreover have "\<forall>c. (c_status c = Completed \<longrightarrow> c_adminApprovedAt c \<noteq> None)
            \<longrightarrow> (c_status (f2 (f1 c)) = Completed \<longrightarrow> c_adminApprovedAt (f2 (f1 c)) \<noteq> None)"
    using j1 j2 by blast
  moreover have "\<forall>c\<in>set (map f2 new1 @ new2).
                   c_adminApprovedAt c \<noteq> None \<longrightarrow> c_status c = Completed"
  proof
    fix c assume "c \<in> set (map f2 new1 @ new2)"
    then consider c0 where "c0 \<in> set new1" "c = f2 c0" | "c \<in> set new2" by auto
    then show "c_adminApprovedAt c \<noteq> None \<longrightarrow> c_status c = Completed"
    proof cases
      case 1
      then have "c_adminApprovedAt c0 = None" using n1 by blast
      then show ?thesis using i2 1 by simp
    next
      case 2
      then show ?thesis using n2 by blast
    qed
  qed
  moreover have "(\<forall>y\<in>set (x # rs). \<not> proposes_completed (snd y))
          \<longrightarrow> (\<forall>c\<in>set (map f2 new1 @ new2).
                  c_status c = Completed \<longrightarrow> c_adminApprovedAt c \<noteq> None)"
  proof (intro impI ballI)
    fix c
    assume np: "\<forall>y\<in>set (x # rs). \<not> proposes_completed (snd y)"
      and c: "c \<in> set (map f2 new1 @ new2)" and st: "c_status c = Completed"
    from np have npr: "\<not> proposes_completed r"
      and nprs: "\<forall>y\<in>set rs. \<not> proposes_completed (snd y)"
      by (simp_all add: x)
    from c consider c0 where "c0 \<in> set new1" "c = f2 c0" | "c \<in> set new2" by auto
    then show "c_adminApprovedAt c \<noteq> None"
    proof cases
      case 1
      then have "c_status c0 \<noteq> Completed" using m1 npr by blast
      then show ?thesis using j2 1 st by blast
    next
      case 2
      then show ?thesis using m2 nprs st by blast
    qed
  qed
  ultimately show ?case by blast
qed

text \<open>The definitions a request on a concrete database unfolds to.\<close>

lemmas handler_defs =
  post_contracts_def post_contracts_sign_def post_contracts_approve_def
  insertContractSchema_parse_def createContract_def createNotification_def
  signContract_def approveContract_def getContract_def getUser_def user_exists_def Let_def




section \<open>Messaging\<close>

text \<open>
  C8. \<open>getConversation a b\<close> returns exactly the messages sent from \<open>a\<close> to \<open>b\<close> or
  from \<open>b\<close> to \<open>a\<close>, each as often as the table holds it and none left out (there is
  no page limit), in non-decreasing order of creation time; the route
  GET /api/messages/:userId answers with that list.
\<close>

theorem getConversation_exact_sorted:
  "mset (getConversation d a b)
     = mset (filter (\<lambda>m. (m_senderId m = a \<and> m_receiverId m = b)
                        \<or> (m_senderId m = b \<and> m_receiverId m = a)) (messages d))
   \<and> sorted (map m_createdAt (getConversation d a b))
   \<and> get_messages_userId d a b = (200, Messages_json (getConversation d a b))"
  by (simp add: getConversation_def get_messages_userId_def)

theorem getConversation_exact_sorted_witness:
  "map m_id (getConversation ex_db ''r1'' ''h1'') = [2, 1]
   \<and> sorted (map m_createdAt (getConversation ex_db ''r1'' ''h1''))"
  using getConversation_exact_sorted [of ex_db "''r1''" "''h1''"]
  by (simp add: getConversation_def ex_db_def)

section \<open>Contracts\<close>

text \<open>
  C2, as the code has it. When a refugee or a host signs the same contract a second
  time, the second call overwrites: afterwards the signature timestamp of the caller's
  role is the time of the second call on every contract with that id, and nothing else
  in the contracts table differs from before the first call.
\<close>

theorem sign_twice_overwrites:
  assumes "getUser d sub = Some u" and "u_role u = Refugee \<or> u_role u = Host"
  shows "contracts (snd (post_contracts_sign (snd (post_contracts_sign d t1 sub cid)) t2 sub cid))
         = map (\<lambda>c. if c_id c = cid
                    then (if u_role u = Refugee then c\<lparr>c_refugeeSignedAt := Some t2\<rparr>
                          else c\<lparr>c_hostSignedAt := Some t2\<rparr>)
                    else c) (contracts d)"
proof -
  let ?d1 = "snd (post_contracts_sign d t1 sub cid)"
  have nonadmin: "u_role u \<noteq> Admin" using assms(2) by auto
  have "getUser ?d1 sub = Some u"
    using assms(1) getUser_cong [OF users_post_contracts_sign] by simp
  then have "contracts (snd (post_contracts_sign ?d1 t2 sub cid))
             = contracts (signContract ?d1 t2 cid (u_role u))"
    using nonadmin by (simp add: contracts_post_contracts_sign)
  moreover have "contracts ?d1 = contracts (signContract d t1 cid (u_role u))"
    using assms(1) nonadmin by (simp add: contracts_post_contracts_sign)
  ultimately show ?thesis
    by (simp add: contracts_signContract comp_def cong: if_cong)
qed

theorem sign_twice_overwrites_witness:
  "getUser ex_db ''r1''
     = Some \<lparr>u_id = ''r1'', u_role = Refugee, u_profileStatus = Approved, u_updatedAt = None\<rparr>
   \<and> map c_refugeeSignedAt
        (contracts (snd (post_contracts_sign (snd (post_contracts_sign ex_db 100 ''r1'' 1))
                                             200 ''r1'' 1)))
     = [Some 200]"
proof -
  have h: "getUser ex_db ''r1''
     = Some \<lparr>u_id = ''r1'', u_role = Refugee, u_profileStatus = Approved, u_updatedAt = None\<rparr>"
    by (simp add: getUser_def ex_db_def)
  show ?thesis
    using h sign_twice_overwrites [OF h, of 100 1 200] by (simp add: ex_db_def)
qed

text \<open>
  The claim as the specification states it fails: signed at time 100 and again at time
  200 by the same refugee, contract 1 carries 200, not 100.
\<close>

theorem sign_twice_counterexample:
  "map c_refugeeSignedAt (contracts (snd (post_contracts_sign ex_db 100 ''r1'' 1))) = [Some 100]
   \<and> map c_refugeeSignedAt
        (contracts (snd (post_contracts_sign (snd (post_contracts_sign ex_db 100 ''r1'' 1))
                                             200 ''r1'' 1)))
     = [Some 200]"
  by (simp add: post_contracts_sign_def getUser_def signContract_def getContract_def ex_db_def)

text \<open>
  C3, as the code has it. Signing checks the caller's role and nothing else. A caller
  with role refugee sets the refugee signature timestamp, a caller with role host the
  host signature timestamp, on every contract with the given id, whether or not the
  caller is one of the contract's two parties; the rest of the contracts table is
  unchanged. A caller without a user row or with role admin is answered 403 and nothing
  changes.
\<close>

theorem sign_checks_role_not_party:
  "(map_option u_role (getUser d sub) = Some Refugee \<longrightarrow>
      contracts (snd (post_contracts_sign d now sub cid))
        = map (\<lambda>c. if c_id c = cid then c\<lparr>c_refugeeSignedAt := Some now\<rparr> else c) (contracts d))
   \<and> (map_option u_role (getUser d sub) = Some Host \<longrightarrow>
      contracts (snd (post_contracts_sign d now sub cid))
        = map (\<lambda>c. if c_id c = cid then c\<lparr>c_hostSignedAt := Some now\<rparr> else c) (contracts d))
   \<and> (map_option u_role (getUser d sub) \<noteq> Some Refugee
        \<and> map_option u_role (getUser d sub) \<noteq> Some Host \<longrightarrow>
      post_contracts_sign d now sub cid
        = ((403, Message_json ''Only refugees and hosts can sign contracts''), d))"
proof (intro conjI impI)
  assume "map_option u_role (getUser d sub) = Some Refugee"
  then show "contracts (snd (post_contracts_sign d now sub cid))
        = map (\<lambda>c. if c_id c = cid then c\<lparr>c_refugeeSignedAt := Some now\<rparr> else c) (contracts d)"
    by (auto simp: contracts_post_contracts_sign contracts_signContract)
next
  assume "map_option u_role (getUser d sub) = Some Host"
  then show "contracts (snd (post_contracts_sign d now sub cid))
        = map (\<lambda>c. if c_id c = cid then c\<lparr>c_hostSignedAt := Some now\<rparr> else c) (contracts d)"
    by (auto simp: contracts_post_contracts_sign contracts_signContract)
next
  assume "map_option u_role (getUser d sub) \<noteq> Some Refugee
        \<and> map_option u_role (getUser d sub) \<noteq> Some Host"
  then show "post_contracts_sign d now sub cid
        = ((403, Message_json ''Only refugees and hosts can sign contracts''), d)"
    by (cases "getUser d sub") (auto simp: post_contracts_sign_def)
qed

theorem sign_checks_role_not_party_witness:
  "map_option u_role (getUser ex_db ''r2'') = Some Refugee
   \<and> map c_refugeeId (contracts ex_db) = [''r1'']
   \<and> map c_refugeeSignedAt (contracts (snd (post_contracts_sign ex_db 100 ''r2'' 1))) = [Some 100]
   \<and> map_option u_role (getUser ex_db ''admin'') = Some Admin
   \<and> post_contracts_sign ex_db 100 ''admin'' 1
        = ((403, Message_json ''Only refugees and hosts can sign contracts''), ex_db)"
proof -
  have r: "map_option u_role (getUser ex_db ''r2'') = Some Refugee"
    and a: "map_option u_role (getUser ex_db ''admin'') = Some Admin"
    by (simp_all add: getUser_def ex_db_def)
  have c: "contracts ex_db = [\<lparr>c_id = 1, c_refugeeId = ''r1'', c_hostId = ''h1'', c_status = Proposed,
          c_terms = ''one room'', c_duration = ''3 months'',
          c_startDate = None, c_endDate = None,
          c_refugeeSignedAt = None, c_hostSignedAt = None,
          c_adminApprovedAt = None, c_adminApprovedBy = None,
          c_createdAt = 40, c_updatedAt = 40\<rparr>]"
    by (simp add: ex_db_def)
  show ?thesis
    using sign_checks_role_not_party [of ex_db "''r2''" 100 1]
          sign_checks_role_not_party [of ex_db "''admin''" 100 1]
    by (simp add: r a c)
qed

text \<open>
  The claim as the specification states it fails: contract 1 names \<open>r1\<close> and \<open>h1\<close>;
  refugee \<open>r2\<close> asks to sign it, is answered 200, and the contract's refugee signature
  is set.
\<close>

theorem sign_by_stranger_counterexample:
  "map c_refugeeId (contracts ex_db) = [''r1'']
   \<and> map c_hostId (contracts ex_db) = [''h1'']
   \<and> map c_refugeeSignedAt (contracts ex_db) = [None]
   \<and> fst (post_contracts_sign ex_db 100 ''r2'' 1) = (200, Success_json)
   \<and> map c_refugeeSignedAt (contracts (snd (post_contracts_sign ex_db 100 ''r2'' 1))) = [Some 100]"
  by (simp add: post_contracts_sign_def getUser_def signContract_def getContract_def ex_db_def)

text \<open>
  C1, as the code has it. Approval checks the caller's role and nothing else. A caller
  who is not an administrator is answered 403 and the database is unchanged, so the
  answer is 200 only for an administrator. For an administrator, every contract with the
  given id gets \<open>adminApprovedAt\<close>, \<open>adminApprovedBy\<close> and status completed, whatever
  its two signature timestamps are.
\<close>

theorem approve_checks_role_only:
  "(map_option u_role (getUser d sub) \<noteq> Some Admin \<longrightarrow>
      post_contracts_approve d now sub cid = ((403, Message_json ''Admin access required''), d))
   \<and> (fst (fst (post_contracts_approve d now sub cid)) = 200 \<longrightarrow>
      map_option u_role (getUser d sub) = Some Admin)
   \<and> (map_option u_role (getUser d sub) = Some Admin \<longrightarrow>
      contracts (snd (post_contracts_approve d now sub cid))
        = map (\<lambda>c. if c_id c = cid
                   then c\<lparr>c_adminApprovedAt := Some now, c_adminApprovedBy := Some sub,
                          c_status := Completed\<rparr>
                   else c) (contracts d))"
proof -
  have forbidden: "post_contracts_approve d now sub cid
                     = ((403, Message_json ''Admin access required''), d)"
    if "map_option u_role (getUser d sub) \<noteq> Some Admin"
    using that by (simp add: post_contracts_approve_def)
  have "map_option u_role (getUser d sub) = Some Admin"
    if "fst (fst (post_contracts_approve d now sub cid)) = 200"
  proof (rule ccontr)
    assume "map_option u_role (getUser d sub) \<noteq> Some Admin"
    from forbidden [OF this] that show False by simp
  qed
  then show ?thesis
    using forbidden by (simp add: contracts_post_contracts_approve contracts_approveContract)
qed

theorem approve_checks_role_only_witness:
  "map_option u_role (getUser ex_db ''admin'') = Some Admin
   \<and> map c_adminApprovedAt (contracts (snd (post_contracts_approve ex_db 100 ''admin'' 1))) = [Some 100]
   \<and> map c_status (contracts (snd (post_contracts_approve ex_db 100 ''admin'' 1))) = [Completed]
   \<and> map_option u_role (getUser ex_db ''h1'') = Some Host
   \<and> post_contracts_approve ex_db 100 ''h1'' 1 = ((403, Message_json ''Admin access required''), ex_db)"
proof -
  have a: "map_option u_role (getUser ex_db ''admin'') = Some Admin"
    and h: "map_option u_role (getUser ex_db ''h1'') = Some Host"
    by (simp_all add: getUser_def ex_db_def)
  have c: "contracts ex_db = [\<lparr>c_id = 1, c_refugeeId = ''r1'', c_hostId = ''h1'', c_status = Proposed,
          c_terms = ''one room'', c_duration = ''3 months'',
          c_startDate = None, c_endDate = None,
          c_refugeeSignedAt = None, c_hostSignedAt = None,
          c_adminApprovedAt = None, c_adminApprovedBy = None,
          c_createdAt = 40, c_updatedAt = 40\<rparr>]"
    by (simp add: ex_db_def)
  show ?thesis
    using approve_checks_role_only [of ex_db "''admin''" 100 1]
          approve_checks_role_only [of ex_db "''h1''" 100 1]
    by (simp add: a h c)
qed

text \<open>
  The claim as the specification states it fails: contract 1 has neither signature, the
  administrator's approval is answered 200 and the contract is completed.
\<close>

theorem approve_unsigned_counterexample:
  "map c_refugeeSignedAt (contracts ex_db) = [None]
   \<and> map c_hostSignedAt (contracts ex_db) = [None]
   \<and> map c_status (contracts ex_db) = [Proposed]
   \<and> fst (post_contracts_approve ex_db 100 ''admin'' 1) = (200, Success_json)
   \<and> map c_adminApprovedAt (contracts (snd (post_contracts_approve ex_db 100 ''admin'' 1))) = [Some 100]
   \<and> map c_adminApprovedBy (contracts (snd (post_contracts_approve ex_db 100 ''admin'' 1))) = [Some ''admin'']
   \<and> map c_status (contracts (snd (post_contracts_approve ex_db 100 ''admin'' 1))) = [Completed]"
  by (simp add: post_contracts_approve_def getUser_def approveContract_def getContract_def
                createNotification_def user_exists_def Let_def ex_db_def)

section \<open>Notifications\<close>

text \<open>
  C10, as the code has it. Marking a notification as read does not look at the caller.
  For any signed-in user and any id in the range of the id column the request is
  answered 200, the notification with the given id has its read flag set, and every
  other notification and table is unchanged. The only request that fails is one whose
  id the database refuses: it is answered 500 and nothing changes.
\<close>

theorem markNotificationAsRead_any_caller:
  "(int4 nid \<longrightarrow>
      post_notifications_read d sub nid =
        ((200, Success_json),
         d\<lparr>notifications := map (\<lambda>n. if n_id n = nid then n\<lparr>n_read := True\<rparr> else n)
                                  (notifications d)\<rparr>))
   \<and> (\<not> int4 nid \<longrightarrow>
      post_notifications_read d sub nid =
        ((500, Message_json ''Failed to mark notification as read''), d))"
  by (simp add: post_notifications_read_def markNotificationAsRead_def)

theorem markNotificationAsRead_any_caller_witness:
  "int4 1
   \<and> map n_userId (notifications ex_db) = [''r1'']
   \<and> fst (post_notifications_read ex_db ''h1'' 1) = (200, Success_json)
   \<and> map n_read (notifications (snd (post_notifications_read ex_db ''h1'' 1))) = [True]
   \<and> \<not> int4 2147483648
   \<and> post_notifications_read ex_db ''h1'' 2147483648
       = ((500, Message_json ''Failed to mark notification as read''), ex_db)"
  using markNotificationAsRead_any_caller [of 1 ex_db "''h1''"]
        markNotificationAsRead_any_caller [of 2147483648 ex_db "''h1''"]
  by (simp add: int4_def ex_db_def)

text \<open>
  The claim as the specification states it fails: notification 1 belongs to \<open>r1\<close>;
  the request of \<open>h1\<close> is answered 200 and the notification is read.
\<close>

theorem read_by_stranger_counterexample:
  "map n_userId (notifications ex_db) = [''r1'']
   \<and> map n_read (notifications ex_db) = [False]
   \<and> fst (post_notifications_read ex_db ''h1'' 1) = (200, Success_json)
   \<and> map n_userId (notifications (snd (post_notifications_read ex_db ''h1'' 1))) = [''r1'']
   \<and> map n_read (notifications (snd (post_notifications_read ex_db ''h1'' 1))) = [True]"
  by (simp add: post_notifications_read_def markNotificationAsRead_def int4_def ex_db_def)

section \<open>Profile review\<close>

text \<open>
  C6, as the code has it. A review by an administrator sets the target's profile status
  to approved or to rejected whatever the status was, so rejected to approved and
  approved to rejected both happen; a caller who is not an administrator is answered 403
  and nothing changes. No other request changes a user row. Over any sequence of
  requests the user rows keep their ids, and a status that is approved or rejected never
  becomes pending again.
\<close>

theorem profile_status_review:
  "(map_option u_role (getUser d sub) = Some Admin \<longrightarrow>
      users (snd (post_admin_approve_profile d now sub uid approved))
        = map (\<lambda>u. if u_id u = uid
                   then u\<lparr>u_profileStatus := (if approved then Approved else Rejected),
                          u_updatedAt := Some now\<rparr>
                   else u) (users d))
   \<and> (map_option u_role (getUser d sub) \<noteq> Some Admin \<longrightarrow>
      post_admin_approve_profile d now sub uid approved
        = ((403, Message_json ''Admin access required''), d))
   \<and> ((\<forall>s t a. r \<noteq> Post_admin_approve_profile s t a) \<longrightarrow>
      users (snd (handle d now r)) = users d)
   \<and> map u_id (users (run d rs)) = map u_id (users d)
   \<and> (\<forall>i<length (users d). u_profileStatus (users d ! i) \<noteq> Pending
         \<longrightarrow> u_profileStatus (users (run d rs) ! i) \<noteq> Pending)"
proof -
  have "post_admin_approve_profile d now sub uid approved
          = ((403, Message_json ''Admin access required''), d)"
    if "map_option u_role (getUser d sub) \<noteq> Some Admin"
    using that by (simp add: post_admin_approve_profile_def)
  moreover have "users (snd (handle d now r)) = users d"
    if "\<forall>s t a. r \<noteq> Post_admin_approve_profile s t a"
    using that by (intro users_handle_other) blast
  ultimately show ?thesis
    using users_run [of d rs]
    by (simp add: users_post_admin_approve_profile users_updateProfileStatus)
qed

theorem profile_status_review_witness:
  "map_option u_role (getUser ex_db ''admin'') = Some Admin
   \<and> map u_profileStatus (users ex_db) = [Approved, Rejected, Approved, Pending, Pending]
   \<and> map u_profileStatus (users (snd (post_admin_approve_profile ex_db 100 ''admin'' ''r1'' False)))
       = [Rejected, Rejected, Approved, Pending, Pending]
   \<and> map u_id (users (run ex_db [(100, Post_admin_approve_profile ''admin'' ''r1'' False),
                                  (200, Post_notifications_read ''r1'' 1)]))
       = [''r1'', ''r2'', ''h1'', ''h2'', ''admin'']"
proof -
  have a: "map_option u_role (getUser ex_db ''admin'') = Some Admin"
    by (simp add: getUser_def ex_db_def)
  have u: "users ex_db =
        [\<lparr>u_id = ''r1'', u_role = Refugee, u_profileStatus = Approved, u_updatedAt = None\<rparr>,
         \<lparr>u_id = ''r2'', u_role = Refugee, u_profileStatus = Rejected, u_updatedAt = None\<rparr>,
         \<lparr>u_id = ''h1'', u_role = Host, u_profileStatus = Approved, u_updatedAt = None\<rparr>,
         \<lparr>u_id = ''h2'', u_role = Host, u_profileStatus = Pending, u_updatedAt = None\<rparr>,
         \<lparr>u_id = ''admin'', u_role = Admin, u_profileStatus = Pending, u_updatedAt = None\<rparr>]"
    by (simp add: ex_db_def)
  show ?thesis
    using profile_status_review [of ex_db "''admin''" 100 "''r1''" False
             "Post_notifications_read ''r1'' 1"
             "[(100, Post_admin_approve_profile ''admin'' ''r1'' False),
               (200, Post_notifications_read ''r1'' 1)]"]
    by (simp add: a u)
qed

text \<open>
  The claim as the specification states it fails: \<open>r2\<close> is rejected; the administrator
  reviews \<open>r2\<close> again, is answered 200, and \<open>r2\<close> is approved.
\<close>

theorem review_of_rejected_counterexample:
  "map u_id (users ex_db) = [''r1'', ''r2'', ''h1'', ''h2'', ''admin'']
   \<and> map u_profileStatus (users ex_db) = [Approved, Rejected, Approved, Pending, Pending]
   \<and> fst (post_admin_approve_profile ex_db 100 ''admin'' ''r2'' True) = (200, Success_json)
   \<and> map u_profileStatus (users (snd (post_admin_approve_profile ex_db 100 ''admin'' ''r2'' True)))
       = [Approved, Approved, Approved, Pending, Pending]"
  by (simp add: post_admin_approve_profile_def getUser_def updateProfileStatus_def
                createNotification_def user_exists_def Let_def ex_db_def)

section \<open>The approval of a contract over sequences of requests\<close>

text \<open>
  C4, as the code has it. Over any sequence of requests, starting from a database in
  which every approved contract is completed (one without contracts, for instance),
  every contract with \<open>adminApprovedAt\<close> set has status completed. If moreover no
  proposal in the sequence carries status completed, then status completed holds if and
  only if \<open>adminApprovedAt\<close> is set, given that this held at the start. No request
  removes a contract row, and a row whose \<open>adminApprovedAt\<close> is set keeps it set
  whatever requests follow.
\<close>

theorem completed_iff_approved_over_requests:
  "((\<forall>c\<in>set (contracts d). c_adminApprovedAt c \<noteq> None \<longrightarrow> c_status c = Completed) \<longrightarrow>
      (\<forall>c\<in>set (contracts (run d rs)). c_adminApprovedAt c \<noteq> None \<longrightarrow> c_status c = Completed))
   \<and> ((\<forall>c\<in>set (contracts d). c_status c = Completed \<longleftrightarrow> c_adminApprovedAt c \<noteq> None)
        \<and> (\<forall>x\<in>set rs. \<not> proposes_completed (snd x)) \<longrightarrow>
      (\<forall>c\<in>set (contracts (run d rs)). c_status c = Completed \<longleftrightarrow> c_adminApprovedAt c \<noteq> None))
   \<and> length (contracts d) \<le> length (contracts (run d rs))
   \<and> (\<forall>i<length (contracts d). c_adminApprovedAt (contracts d ! i) \<noteq> None \<longrightarrow>
         c_adminApprovedAt (contracts (run d rs) ! i) \<noteq> None)"
proof -
  obtain f new where s: "contracts (run d rs) = map f (contracts d) @ new"
    and k: "\<forall>c. c_adminApprovedAt c \<noteq> None \<longrightarrow> c_adminApprovedAt (f c) \<noteq> None"
    and i: "\<forall>c. (c_adminApprovedAt c \<noteq> None \<longrightarrow> c_status c = Completed)
            \<longrightarrow> (c_adminApprovedAt (f c) \<noteq> None \<longrightarrow> c_status (f c) = Completed)"
    and j: "\<forall>c. (c_status c = Completed \<longrightarrow> c_adminApprovedAt c \<noteq> None)
            \<longrightarrow> (c_status (f c) = Completed \<longrightarrow> c_adminApprovedAt (f c) \<noteq> None)"
    and n: "\<forall>c\<in>set new. c_adminApprovedAt c \<noteq> None \<longrightarrow> c_status c = Completed"
    and m: "(\<forall>x\<in>set rs. \<not> proposes_completed (snd x))
          \<longrightarrow> (\<forall>c\<in>set new. c_status c = Completed \<longrightarrow> c_adminApprovedAt c \<noteq> None)"
    using contracts_run_shape [of d rs] by blast
  have mem: "c \<in> set (map f (contracts d)) \<or> c \<in> set new"
    if "c \<in> set (contracts (run d rs))" for c
    using that by (simp add: s)
  have fwd: "\<forall>c\<in>set (contracts (run d rs)). c_adminApprovedAt c \<noteq> None \<longrightarrow> c_status c = Completed"
    if inv: "\<forall>c\<in>set (contracts d). c_adminApprovedAt c \<noteq> None \<longrightarrow> c_status c = Completed"
  proof
    fix c assume "c \<in> set (contracts (run d rs))"
    then consider c0 where "c0 \<in> set (contracts d)" "c = f c0" | "c \<in> set new"
      using mem by auto
    then show "c_adminApprovedAt c \<noteq> None \<longrightarrow> c_status c = Completed"
    proof cases
      case 1
      then show ?thesis using inv i by blast
    next
      case 2
      then show ?thesis using n by blast
    qed
  qed
  have bwd: "\<forall>c\<in>set (contracts (run d rs)). c_status c = Completed \<longrightarrow> c_adminApprovedAt c \<noteq> None"
    if inv: "\<forall>c\<in>set (contracts d). c_status c = Completed \<longrightarrow> c_adminApprovedAt c \<noteq> None"
      and np: "\<forall>x\<in>set rs. \<not> proposes_completed (snd x)"
  proof
    fix c assume "c \<in> set (contracts (run d rs))"
    then consider c0 where "c0 \<in> set (contracts d)" "c = f c0" | "c \<in> set new"
      using mem by auto
    then show "c_status c = Completed \<longrightarrow> c_adminApprovedAt c \<noteq> None"
    proof cases
      case 1
      then show ?thesis using inv j by blast
    next
      case 2
      then show ?thesis using m np by blast
    qed
  qed
  have both: "\<forall>c\<in>set (contracts (run d rs)). c_status c = Completed \<longleftrightarrow> c_adminApprovedAt c \<noteq> None"
    if "\<forall>c\<in>set (contracts d). c_status c = Completed \<longleftrightarrow> c_adminApprovedAt c \<noteq> None"
      and "\<forall>x\<in>set rs. \<not> proposes_completed (snd x)"
    using fwd bwd that by blast
  have "length (contracts d) \<le> length (contracts (run d rs))"
    by (simp add: s)
  moreover have "\<forall>i<length (contracts d). c_adminApprovedAt (contracts d ! i) \<noteq> None \<longrightarrow>
         c_adminApprovedAt (contracts (run d rs) ! i) \<noteq> None"
    using k by (simp add: s nth_append)
  ultimately show ?thesis using fwd both by blast
qed

theorem completed_iff_approved_over_requests_witness:
  "contracts ex_db_no_contracts = []
   \<and> map proposes_completed (map snd ex_requests) = [False, False, False, False]
   \<and> map c_adminApprovedAt (contracts (run ex_db_no_contracts ex_requests)) = [Some 400]
   \<and> map c_status (contracts (run ex_db_no_contracts ex_requests)) = [Completed]
   \<and> map c_adminApprovedAt (contracts (run ex_db_no_contracts (take 3 ex_requests))) = [None]
   \<and> map c_status (contracts (run ex_db_no_contracts (take 3 ex_requests))) = [Proposed]
   \<and> map c_adminApprovedAt
        (contracts (run (run ex_db_no_contracts ex_requests)
                        [(500, Post_contracts_sign ''r1'' 1),
                         (600, Post_contracts_approve ''h1'' 1)])) = [Some 400]"
proof -
  have e: "contracts ex_db_no_contracts = []"
    by (simp add: ex_db_no_contracts_def)
  have np: "map proposes_completed (map snd ex_requests) = [False, False, False, False]"
    by (simp add: ex_requests_def ex_contract_body_def)
  have nq: "\<forall>x\<in>set ex_requests. \<not> proposes_completed (snd x)"
           "\<forall>x\<in>set (take 3 ex_requests). \<not> proposes_completed (snd x)"
    by (simp_all add: ex_requests_def ex_contract_body_def)
  have r4: "contracts (run ex_db_no_contracts ex_requests) =
     [\<lparr>c_id = 1, c_refugeeId = ''r1'', c_hostId = ''h1'', c_status = Completed,
       c_terms = ''one room'', c_duration = ''3 months'',
       c_startDate = None, c_endDate = None,
       c_refugeeSignedAt = Some 300, c_hostSignedAt = Some 200,
       c_adminApprovedAt = Some 400, c_adminApprovedBy = Some ''admin'',
       c_createdAt = 100, c_updatedAt = 100\<rparr>]"
    by (simp add: ex_requests_def ex_db_no_contracts_def ex_db_def ex_contract_body_def
                  handler_defs)
  have r3: "contracts (run ex_db_no_contracts (take 3 ex_requests)) =
     [\<lparr>c_id = 1, c_refugeeId = ''r1'', c_hostId = ''h1'', c_status = Proposed,
       c_terms = ''one room'', c_duration = ''3 months'',
       c_startDate = None, c_endDate = None,
       c_refugeeSignedAt = Some 300, c_hostSignedAt = Some 200,
       c_adminApprovedAt = None, c_adminApprovedBy = None,
       c_createdAt = 100, c_updatedAt = 100\<rparr>]"
    by (simp add: ex_requests_def ex_db_no_contracts_def ex_db_def ex_contract_body_def
                  handler_defs)
  have r6: "contracts (run (run ex_db_no_contracts ex_requests)
                        [(500, Post_contracts_sign ''r1'' 1),
                         (600, Post_contracts_approve ''h1'' 1)]) =
     [\<lparr>c_id = 1, c_refugeeId = ''r1'', c_hostId = ''h1'', c_status = Completed,
       c_terms = ''one room'', c_duration = ''3 months'',
       c_startDate = None, c_endDate = None,
       c_refugeeSignedAt = Some 500, c_hostSignedAt = Some 200,
       c_adminApprovedAt = Some 400, c_adminApprovedBy = Some ''admin'',
       c_createdAt = 100, c_updatedAt = 100\<rparr>]"
    by (simp add: ex_requests_def ex_db_no_contracts_def ex_db_def ex_contract_body_def
                  handler_defs)
  have iff4: "\<forall>c\<in>set (contracts (run ex_db_no_contracts ex_requests)).
               c_status c = Completed \<longleftrightarrow> c_adminApprovedAt c \<noteq> None"
    using completed_iff_approved_over_requests [of ex_db_no_contracts ex_requests] e nq(1)
    by simp
  have iff3: "\<forall>c\<in>set (contracts (run ex_db_no_contracts (take 3 ex_requests))).
               c_status c = Completed \<longleftrightarrow> c_adminApprovedAt c \<noteq> None"
    using completed_iff_approved_over_requests [of ex_db_no_contracts "take 3 ex_requests"]
          e nq(2)
    by simp
  have kept: "\<forall>i<length (contracts (run ex_db_no_contracts ex_requests)).
         c_adminApprovedAt (contracts (run ex_db_no_contracts ex_requests) ! i) \<noteq> None \<longrightarrow>
         c_adminApprovedAt
           (contracts (run (run ex_db_no_contracts ex_requests)
                        [(500, Post_contracts_sign ''r1'' 1),
                         (600, Post_contracts_approve ''h1'' 1)]) ! i) \<noteq> None"
    using completed_iff_approved_over_requests [of "run ex_db_no_contracts ex_requests"
             "[(500, Post_contracts_sign ''r1'' 1), (600, Post_contracts_approve ''h1'' 1)]"]
    by blast
  from iff4 iff3 kept np show ?thesis
    unfolding r4 r3 r6 by (simp add: e)
qed

text \<open>
  The claim as the specification states it fails in the direction from status to
  approval: the insert schema keeps \<^verbatim>\<open>status\<close>, so a proposal that carries status
  completed is stored as it is, with no approval timestamp.
\<close>

theorem completed_without_approval_counterexample:
  "contracts ex_db_no_contracts = []
   \<and> map c_status
        (contracts (run ex_db_no_contracts
           [(100, Post_contracts ''r1'' (ex_contract_body\<lparr>cb_status := Given Completed\<rparr>))]))
       = [Completed]
   \<and> map c_adminApprovedAt
        (contracts (run ex_db_no_contracts
           [(100, Post_contracts ''r1'' (ex_contract_body\<lparr>cb_status := Given Completed\<rparr>))]))
       = [None]"
  by (simp add: ex_db_no_contracts_def ex_db_def ex_contract_body_def handler_defs)

section \<open>Profile submission\<close>




section \<open>Discovery\<close>

text \<open>
  C7, as the code has it. A requester whose profile status is not approved (or who has
  no user row) is answered 403. An approved requester gets the inner join of users and
  host profiles: exactly the pairs of a user with role host and status approved and a
  host profile of that user. An approved host without a host profile is not listed.
\<close>

theorem listAvailableHosts_is_join:
  "(map_option u_profileStatus (getUser d sub) \<noteq> Some Approved \<longrightarrow>
      get_hosts_available d sub = (403, Message_json ''Profile must be approved to view hosts''))
   \<and> (map_option u_profileStatus (getUser d sub) = Some Approved \<longrightarrow>
      get_hosts_available d sub = (200, Hosts_json (getApprovedHosts d)))
   \<and> set (getApprovedHosts d)
       = {(u, p). u \<in> set (users d) \<and> p \<in> set (hostProfiles d) \<and> hp_userId p = u_id u
                  \<and> u_role u = Host \<and> u_profileStatus u = Approved}"
  by (auto simp: get_hosts_available_def getApprovedHosts_def)

theorem listAvailableHosts_is_join_witness:
  "map_option u_profileStatus (getUser ex_db ''r1'') = Some Approved
   \<and> map_option u_profileStatus (getUser ex_db ''r2'') = Some Rejected
   \<and> get_hosts_available ex_db ''r2''
       = (403, Message_json ''Profile must be approved to view hosts'')
   \<and> get_hosts_available ex_db ''r1''
       = (200, Hosts_json
            [(\<lparr>u_id = ''h1'', u_role = Host, u_profileStatus = Approved, u_updatedAt = None\<rparr>,
              ex_host_profile_h1)])"
proof -
  have a: "map_option u_profileStatus (getUser ex_db ''r1'') = Some Approved"
    and b: "map_option u_profileStatus (getUser ex_db ''r2'') = Some Rejected"
    by (simp_all add: getUser_def ex_db_def)
  have g: "getApprovedHosts ex_db =
            [(\<lparr>u_id = ''h1'', u_role = Host, u_profileStatus = Approved, u_updatedAt = None\<rparr>,
              ex_host_profile_h1)]"
    by (simp add: getApprovedHosts_def ex_db_def ex_host_profile_h1_def)
  show ?thesis
    using listAvailableHosts_is_join [of ex_db "''r1''"]
          listAvailableHosts_is_join [of ex_db "''r2''"]
    by (simp add: a b g)
qed

text \<open>
  The claim as the specification states it fails: host \<open>h2\<close> has no host profile;
  the administrator approves \<open>h2\<close>, who then has role host and status approved, and
  the list an approved requester gets holds \<open>h1\<close> only.
\<close>

theorem approved_host_without_profile_counterexample:
  "map_option u_role (getUser ex_db ''h2'') = Some Host
   \<and> getHostProfile ex_db ''h2'' = None
   \<and> fst (post_admin_approve_profile ex_db 50 ''admin'' ''h2'' True) = (200, Success_json)
   \<and> getUser (snd (post_admin_approve_profile ex_db 50 ''admin'' ''h2'' True)) ''h2''
       = Some \<lparr>u_id = ''h2'', u_role = Host, u_profileStatus = Approved, u_updatedAt = Some 50\<rparr>
   \<and> get_hosts_available (snd (post_admin_approve_profile ex_db 50 ''admin'' ''h2'' True)) ''r1''
       = (200, Hosts_json
            [(\<lparr>u_id = ''h1'', u_role = Host, u_profileStatus = Approved, u_updatedAt = None\<rparr>,
              ex_host_profile_h1)])"
  by (simp add: get_hosts_available_def getApprovedHosts_def getUser_def getHostProfile_def
                post_admin_approve_profile_def updateProfileStatus_def createNotification_def
                user_exists_def Let_def ex_db_def ex_host_profile_h1_def)

section \<open>Contract proposals\<close>




end
